theory Spec2Isabelle
  imports
    Complex_Main
    "HOL-Library.Multiset"
    "HOL-Library.Char_ord"
    "HOL-Library.List_Lexorder"
begin

section \<open>Data model of \<^verbatim>\<open>milking_streamlit.py\<close>\<close>

text \<open>
  The dashboard reads two tables of an SQLite database, \<^verbatim>\<open>animals\<close> and
  \<^verbatim>\<open>milk_yield\<close>, through parameterised queries and reshapes the results with pandas.
  A table is the list of its rows (row order and duplicate rows are kept). A calendar day is
  its proleptic Gregorian ordinal, the number that Python's \<^verbatim>\<open>date.toordinal()\<close> returns
  (day 1 is 0001-01-01): on ISO dates \<^verbatim>\<open>YYYY-MM-DD\<close> the text comparison of SQLite is the
  comparison of ordinals, and \<^verbatim>\<open>(d1 - d0).days\<close> is their difference. The column
  \<^verbatim>\<open>yield_value\<close> (REAL) holds IEEE doubles; a double is the real number it stands
  for, and every addition of a \<^verbatim>\<open>SUM\<close> rounds to the nearest double (\<open>fl64\<close> below).
  The columns of \<^verbatim>\<open>milk_yield\<close> hold no NULL; \<^verbatim>\<open>birth_date\<close> may. pandas is pandas 2
  (up to 2.2): its timestamps count nanoseconds, and \<^verbatim>\<open>pd.to_datetime(None)\<close> is
  \<^verbatim>\<open>None\<close>.
\<close>

type_synonym date = int

record animal =
  ear_tag :: string
  farm_name :: string
  birth_date :: "date option"

record milk_yield =
  ear_tag :: string
  record_date :: date
  record_year :: int
  yield_value :: real

record db =
  animals :: "animal list"
  milk_yield :: "milk_yield list"

subsection \<open>Calendar\<close>

text \<open>Year, month and day of an ordinal, and back (era-based civil calendar arithmetic).\<close>

definition ymd_of_date :: "date \<Rightarrow> int \<times> int \<times> int" where
  "ymd_of_date n =
     (let z = n + 305;
          era = z div 146097;
          doe = z - era * 146097;
          yoe = (doe - doe div 1460 + doe div 36524 - doe div 146096) div 365;
          doy = doe - (365 * yoe + yoe div 4 - yoe div 100);
          mp = (5 * doy + 2) div 153;
          d = doy - (153 * mp + 2) div 5 + 1;
          m = (if mp < 10 then mp + 3 else mp - 9);
          y = yoe + era * 400 + (if m \<le> 2 then 1 else 0)
      in (y, m, d))"

definition date_of_ymd :: "int \<Rightarrow> int \<Rightarrow> int \<Rightarrow> date" where
  "date_of_ymd y m d =
     (let y' = (if m \<le> 2 then y - 1 else y);
          era = y' div 400;
          yoe = y' - era * 400;
          doy = (153 * (if 2 < m then m - 3 else m + 9) + 2) div 5 + d - 1;
          doe = yoe * 365 + yoe div 4 - yoe div 100 + doy
      in era * 146097 + doe - 305)"

definition digit_char :: "nat \<Rightarrow> char" where
  "digit_char n = ''0123456789'' ! (n mod 10)"

text \<open>\<^verbatim>\<open>strftime('%Y-%m', record_date)\<close>: four digits of the year, a dash, two of the month.\<close>

definition strftime_Ym :: "date \<Rightarrow> string" where
  "strftime_Ym dt =
     (case ymd_of_date dt of (y, m, d) \<Rightarrow>
        [digit_char (nat y div 1000), digit_char (nat y div 100),
         digit_char (nat y div 10), digit_char (nat y),
         CHR ''-'', digit_char (nat m div 10), digit_char (nat m)])"

subsection \<open>Binary floating point\<close>

text \<open>
  Rounding to the nearest integer, halves to the even neighbour (\<^verbatim>\<open>numpy.rint\<close>, and the
  rounding of IEEE arithmetic and of the \<^verbatim>\<open>f\<close> formats).
\<close>

definition round_half_even :: "real \<Rightarrow> int" where
  "round_half_even x =
     (let f = \<lfloor>x\<rfloor>; r = x - of_int f
      in if r < 1 / 2 then f else if 1 / 2 < r then f + 1
         else if even f then f else f + 1)"

text \<open>
  The binade of a positive number \<open>y\<close>: the exponent \<open>e\<close> with \<open>2^e \<le> y < 2^(e+1)\<close>, found
  by halving or doubling in steps of 512, 256, ..., 1 (for \<open>2^-1023 \<le> y < 2^1024\<close>).
\<close>

fun up_step :: "nat \<Rightarrow> real \<times> int \<Rightarrow> real \<times> int" where
  "up_step k (y, e) = (if 2 ^ k \<le> y then (y / 2 ^ k, e + int k) else (y, e))"

fun down_step :: "nat \<Rightarrow> real \<times> int \<Rightarrow> real \<times> int" where
  "down_step k (y, e) = (if y * 2 ^ k < 2 then (y * 2 ^ k, e - int k) else (y, e))"

definition binade :: "real \<Rightarrow> int" where
  "binade y =
     snd (if 1 \<le> y then fold up_step [512, 256, 128, 64, 32, 16, 8, 4, 2, 1] (y, 0)
          else fold down_step [512, 256, 128, 64, 32, 16, 8, 4, 2, 1] (y, 0))"

definition pow2 :: "int \<Rightarrow> real" where
  "pow2 i = (if 0 \<le> i then 2 ^ nat i else 1 / 2 ^ nat (- i))"

text \<open>
  The double nearest to a real number (binary64: 53 significant bits, halves to the even
  mantissa, the spacing of the subnormal numbers below \<open>2^-1022\<close>). A result of magnitude
  \<open>2^1024\<close> or more, where the double is an infinity, is outside the model.
\<close>

definition fl64 :: "real \<Rightarrow> real" where
  "fl64 x =
     (if x = 0 then 0
      else let q = pow2 (max (binade \<bar>x\<bar>) (- 1022) - 52)
           in of_int (round_half_even (x / q)) * q)"

text \<open>The addition of two doubles, and a sum accumulated row by row from 0.0.\<close>

definition fadd :: "real \<Rightarrow> real \<Rightarrow> real" where
  "fadd a b = fl64 (a + b)"

definition float_sum :: "real list \<Rightarrow> real" where
  "float_sum xs = foldl fadd 0 xs"

subsection \<open>SQL aggregates and grouping\<close>

text \<open>
  \<^verbatim>\<open>SUM\<close>, \<^verbatim>\<open>MIN\<close>, \<^verbatim>\<open>MAX\<close> and \<^verbatim>\<open>AVG\<close> over no rows are NULL (\<open>None\<close>).
  \<^verbatim>\<open>SUM\<close> adds the values in doubles, in the order of the rows; \<^verbatim>\<open>AVG\<close> divides that
  sum by the count. (SQLite from 3.43 on carries a correction term beside the sum, which is
  not modelled; on the sums that are evaluated below it returns the same doubles.)
\<close>

definition sql_sum :: "real list \<Rightarrow> real option" where
  "sql_sum xs = (if xs = [] then None else Some (float_sum xs))"

definition sql_min :: "'a::linorder list \<Rightarrow> 'a option" where
  "sql_min xs = (case xs of [] \<Rightarrow> None | x # r \<Rightarrow> Some (fold min r x))"

definition sql_max :: "'a::linorder list \<Rightarrow> 'a option" where
  "sql_max xs = (case xs of [] \<Rightarrow> None | x # r \<Rightarrow> Some (fold max r x))"

definition sql_avg :: "real list \<Rightarrow> real option" where
  "sql_avg xs = (if xs = [] then None else Some (fl64 (float_sum xs / real (length xs))))"

text \<open>\<^verbatim>\<open>ROUND(x, 1)\<close> of SQLite rounds halves away from zero.\<close>

definition sql_round1 :: "real \<Rightarrow> real" where
  "sql_round1 x = sgn x * of_int \<lfloor>\<bar>x\<bar> * 10 + 1 / 2\<rfloor> / 10"

definition coalesce :: "'a option \<Rightarrow> 'a \<Rightarrow> 'a" where
  "coalesce v dflt = (case v of None \<Rightarrow> dflt | Some x \<Rightarrow> x)"

definition count_distinct :: "'a list \<Rightarrow> nat" where
  "count_distinct xs = length (remdups xs)"

text \<open>
  \<^verbatim>\<open>GROUP BY key ORDER BY key\<close>: one group for each key value that occurs, in ascending
  order of the key, holding the rows with that key.
\<close>

definition group_by :: "('r \<Rightarrow> 'k::linorder) \<Rightarrow> 'r list \<Rightarrow> ('k \<times> 'r list) list" where
  "group_by key rows =
     map (\<lambda>k. (k, filter (\<lambda>r. key r = k) rows)) (sort (remdups (map key rows)))"

subsection \<open>pandas arithmetic\<close>

text \<open>
  A float of a pandas column: a finite number, an infinity or NaN. Dividing a float column
  by an integer column raises nothing: a zero divisor gives an infinity or NaN.
\<close>

datatype pyfloat = Fin real | PInf | NInf | NaN

definition np_divide :: "real \<Rightarrow> nat \<Rightarrow> pyfloat" where
  "np_divide x n =
     (if n = 0 then (if 0 < x then PInf else if x < 0 then NInf else NaN)
      else Fin (x / real n))"

text \<open>\<^verbatim>\<open>Series.round(1)\<close>: scale by ten, round to the nearest integer, scale back.\<close>

definition round1 :: "real \<Rightarrow> real" where
  "round1 x = of_int (round_half_even (x * 10)) / 10"

fun np_round1 :: "pyfloat \<Rightarrow> pyfloat" where
  "np_round1 (Fin x) = Fin (round1 x)"
| "np_round1 v = v"

record year_row =
  year :: int
  liters :: real
  days :: nat
  avg_daily :: pyfloat

record farm_year_row = year_row +
  cows :: nat

record trend_row =
  month :: string
  liters :: int
  sessions :: int

text \<open>
  \<^verbatim>\<open>left.merge(right, on="month", how="left").fillna(0)\<close> followed by
  \<^verbatim>\<open>astype(int)\<close> on the sessions: every row of the left frame, in the left frame's order,
  once for each row of the right frame with the same month, and once with a missing (NaN,
  then 0) session count when the right frame has no such row.
\<close>

definition merge_left :: "(string \<times> int) list \<Rightarrow> (string \<times> nat) list \<Rightarrow> trend_row list" where
  "merge_left left right =
     concat (map (\<lambda>(m, v).
       (case filter (\<lambda>(m', s). m' = m) right of
          [] \<Rightarrow> [\<lparr>month = m, liters = v, sessions = 0\<rparr>]
        | ms \<Rightarrow> map (\<lambda>(m', s). \<lparr>month = m, liters = v, sessions = int s\<rparr>) ms)) left)"

section \<open>The data loaders\<close>

text \<open>\<^verbatim>\<open>load_animals\<close>: ear tag and birth date of the animals of a farm, by ear tag.\<close>

definition load_animals :: "db \<Rightarrow> string \<Rightarrow> (string \<times> date option) list" where
  "load_animals d farm =
     map (\<lambda>a. (animal.ear_tag a, birth_date a))
       (sort_key animal.ear_tag (filter (\<lambda>a. farm_name a = farm) (animals d)))"

subsection \<open>\<^verbatim>\<open>farm_yield_summary\<close>\<close>

text \<open>
  \<^verbatim>\<open>FROM milk_yield m JOIN animals a ON m.ear_tag=a.ear_tag WHERE a.farm_name=?\<close>:
  a yield row once for every animal row of the farm with its ear tag. Every column the
  queries select is a column of \<^verbatim>\<open>milk_yield\<close>, so the joined row is the yield row.
\<close>

definition farm_join :: "db \<Rightarrow> string \<Rightarrow> milk_yield list" where
  "farm_join d farm =
     concat (map (\<lambda>m. map (\<lambda>a. m)
       (filter (\<lambda>a. milk_yield.ear_tag m = animal.ear_tag a \<and> farm_name a = farm) (animals d)))
       (milk_yield d))"

definition farm_total :: "db \<Rightarrow> string \<Rightarrow> real" where
  "farm_total d farm = coalesce (sql_sum (map yield_value (farm_join d farm))) 0"

definition farm_days :: "db \<Rightarrow> string \<Rightarrow> nat" where
  "farm_days d farm = count_distinct (map record_date (farm_join d farm))"

text \<open>
  The annual breakdown. A group of \<^verbatim>\<open>GROUP BY\<close> is never empty, so its \<^verbatim>\<open>SUM\<close> is
  not NULL: it is the double sum of its rows. \<^verbatim>\<open>avg_daily\<close> is the column added by
  pandas.
\<close>

definition farm_df_year :: "db \<Rightarrow> string \<Rightarrow> farm_year_row list" where
  "farm_df_year d farm =
     map (\<lambda>(y, g).
        \<lparr>year = y,
         liters = float_sum (map yield_value g),
         days = count_distinct (map record_date g),
         avg_daily = np_round1 (np_divide (float_sum (map yield_value g))
                                  (count_distinct (map record_date g))),
         cows = count_distinct (map milk_yield.ear_tag g)\<rparr>)
       (group_by record_year (farm_join d farm))"

text \<open>The joined rows of a farm with a given record year.\<close>

definition farm_year_records :: "db \<Rightarrow> string \<Rightarrow> int \<Rightarrow> milk_yield list" where
  "farm_year_records d farm y = filter (\<lambda>m. record_year m = y) (farm_join d farm)"

text \<open>The rows of the trailing window: \<^verbatim>\<open>record_date >= today - 365 days\<close>.\<close>

definition farm_window :: "db \<Rightarrow> date \<Rightarrow> string \<Rightarrow> milk_yield list" where
  "farm_window d today farm =
     filter (\<lambda>m. today - 365 \<le> record_date m) (farm_join d farm)"

definition farm_liters_12mo :: "db \<Rightarrow> date \<Rightarrow> string \<Rightarrow> (string \<times> int) list" where
  "farm_liters_12mo d today farm =
     map (\<lambda>(k, g). (k, round_half_even (float_sum (map yield_value g))))
       (group_by (\<lambda>m. strftime_Ym (record_date m)) (farm_window d today farm))"

definition farm_df_count :: "db \<Rightarrow> date \<Rightarrow> string \<Rightarrow> (string \<times> nat) list" where
  "farm_df_count d today farm =
     map (\<lambda>(k, g). (k, count_distinct (map milk_yield.ear_tag g)))
       (group_by (\<lambda>m. strftime_Ym (record_date m)) (farm_window d today farm))"

definition farm_df_12mo :: "db \<Rightarrow> date \<Rightarrow> string \<Rightarrow> trend_row list" where
  "farm_df_12mo d today farm =
     merge_left (farm_liters_12mo d today farm) (farm_df_count d today farm)"

definition farm_yield_summary ::
  "db \<Rightarrow> date \<Rightarrow> string \<Rightarrow> real \<times> nat \<times> farm_year_row list \<times> trend_row list" where
  "farm_yield_summary d today farm =
     (farm_total d farm, farm_days d farm, farm_df_year d farm, farm_df_12mo d today farm)"

subsection \<open>\<^verbatim>\<open>animal_yield_summary\<close>\<close>

record stats =
  avg_daily :: "real option"
  max_yield :: "real option"
  min_yield :: "real option"

text \<open>\<^verbatim>\<open>FROM milk_yield WHERE ear_tag=?\<close>\<close>

definition animal_rows :: "db \<Rightarrow> string \<Rightarrow> milk_yield list" where
  "animal_rows d tag = filter (\<lambda>m. milk_yield.ear_tag m = tag) (milk_yield d)"

definition animal_total :: "db \<Rightarrow> string \<Rightarrow> real" where
  "animal_total d tag = coalesce (sql_sum (map yield_value (animal_rows d tag))) 0"

definition animal_days :: "db \<Rightarrow> string \<Rightarrow> nat" where
  "animal_days d tag = count_distinct (map record_date (animal_rows d tag))"

text \<open>
  \<^verbatim>\<open>pd.to_datetime(v).date()\<close> on a value of the query: for NULL, \<^verbatim>\<open>pd.to_datetime(None)\<close>
  is \<^verbatim>\<open>None\<close> and the call of \<^verbatim>\<open>.date()\<close> on it raises; a date outside the range of a
  nanosecond timestamp (1677-09-22 to 2262-04-11) makes \<^verbatim>\<open>pd.to_datetime\<close> raise.
\<close>

datatype error = AttributeError | OutOfBoundsDatetime | TypeError

definition in_timestamp_range :: "date \<Rightarrow> bool" where
  "in_timestamp_range dt = (date_of_ymd 1677 9 22 \<le> dt \<and> dt \<le> date_of_ymd 2262 4 11)"

definition to_datetime_date :: "date option \<Rightarrow> error + date" where
  "to_datetime_date v =
     (case v of
        None \<Rightarrow> Inl AttributeError
      | Some dt \<Rightarrow> (if in_timestamp_range dt then Inr dt else Inl OutOfBoundsDatetime))"

text \<open>
  The active duration: the \<^verbatim>\<open>try\<close> block converts the first date, then the last, and
  takes the span; the bare \<^verbatim>\<open>except\<close> catches whatever either conversion raises and takes
  the day count.
\<close>

definition animal_duration :: "db \<Rightarrow> string \<Rightarrow> int" where
  "animal_duration d tag =
     (case to_datetime_date (sql_min (map record_date (animal_rows d tag))) of
        Inl e \<Rightarrow> int (animal_days d tag)
      | Inr d0 \<Rightarrow>
          (case to_datetime_date (sql_max (map record_date (animal_rows d tag))) of
             Inl e \<Rightarrow> int (animal_days d tag)
           | Inr d1 \<Rightarrow> (d1 - d0) + 1))"

definition animal_df_year :: "db \<Rightarrow> string \<Rightarrow> year_row list" where
  "animal_df_year d tag =
     map (\<lambda>(y, g).
        \<lparr>year = y,
         liters = float_sum (map yield_value g),
         days = count_distinct (map record_date g),
         avg_daily = np_round1 (np_divide (float_sum (map yield_value g))
                                  (count_distinct (map record_date g)))\<rparr>)
       (group_by record_year (animal_rows d tag))"

definition animal_window :: "db \<Rightarrow> date \<Rightarrow> string \<Rightarrow> milk_yield list" where
  "animal_window d today tag =
     filter (\<lambda>m. milk_yield.ear_tag m = tag \<and> today - 365 \<le> record_date m) (milk_yield d)"

definition animal_liters_12mo :: "db \<Rightarrow> date \<Rightarrow> string \<Rightarrow> (string \<times> int) list" where
  "animal_liters_12mo d today tag =
     map (\<lambda>(k, g). (k, round_half_even (float_sum (map yield_value g))))
       (group_by (\<lambda>m. strftime_Ym (record_date m)) (animal_window d today tag))"

definition animal_df_sessions :: "db \<Rightarrow> date \<Rightarrow> string \<Rightarrow> (string \<times> nat) list" where
  "animal_df_sessions d today tag =
     map (\<lambda>(k, g). (k, length g))
       (group_by (\<lambda>m. strftime_Ym (record_date m)) (animal_window d today tag))"

definition animal_df_12mo :: "db \<Rightarrow> date \<Rightarrow> string \<Rightarrow> trend_row list" where
  "animal_df_12mo d today tag =
     merge_left (animal_liters_12mo d today tag) (animal_df_sessions d today tag)"

definition animal_stats :: "db \<Rightarrow> string \<Rightarrow> stats" where
  "animal_stats d tag =
     \<lparr>avg_daily = map_option sql_round1 (sql_avg (map yield_value (animal_rows d tag))),
      max_yield = sql_max (map yield_value (animal_rows d tag)),
      min_yield = sql_min (map yield_value (animal_rows d tag))\<rparr>"

definition animal_yield_summary ::
  "db \<Rightarrow> date \<Rightarrow> string \<Rightarrow> real \<times> nat \<times> int \<times> year_row list \<times> trend_row list \<times> stats" where
  "animal_yield_summary d today tag =
     (animal_total d tag, animal_days d tag, animal_duration d tag,
      animal_df_year d tag, animal_df_12mo d today tag, animal_stats d tag)"

text \<open>
  The query of the last-six-months detail (lines 330 to 334): date and yield of the records of
  the trailing 180 days, by date (records of one date in table order).
\<close>

definition df_6mo :: "db \<Rightarrow> date \<Rightarrow> string \<Rightarrow> (date \<times> real) list" where
  "df_6mo d today cow =
     map (\<lambda>m. (record_date m, yield_value m))
       (sort_key record_date
          (filter (\<lambda>m. milk_yield.ear_tag m = cow \<and> today - 180 \<le> record_date m)
             (milk_yield d)))"

text \<open>
  The cow page from line 278 on, as far as it computes: it calls the aggregator, formats the
  metrics, and only then runs the six-months query. The format
  \<^verbatim>\<open>f"{stats['avg_daily']:.1f}"\<close> of line 282 raises \<^verbatim>\<open>TypeError\<close> when the average is
  NULL (\<^verbatim>\<open>None\<close>); the other metrics format any value. The result is the six-months
  detail the page reaches, or the exception. Widgets and charts are not part of the model.
\<close>

definition cow_page :: "db \<Rightarrow> date \<Rightarrow> string \<Rightarrow> error + (date \<times> real) list" where
  "cow_page d today cow =
     (case animal_yield_summary d today cow of
        (tot, dys, dur, dfy, dfm, st) \<Rightarrow>
          (case stats.avg_daily st of
             None \<Rightarrow> Inl TypeError
           | Some a \<Rightarrow> Inr (df_6mo d today cow)))"

section \<open>Example databases\<close>


text \<open>
  Two farms, three animals, six records: fractional yields, two animals on one day, a record
  older than the trailing window and one of the other farm.
\<close>

definition two_farms :: db where
  "two_farms =
     \<lparr>animals =
        [\<lparr>animal.ear_tag = ''A1'', farm_name = ''North'', birth_date = Some (date_of_ymd 2020 5 1)\<rparr>,
         \<lparr>animal.ear_tag = ''B1'', farm_name = ''South'', birth_date = None\<rparr>,
         \<lparr>animal.ear_tag = ''A2'', farm_name = ''North'', birth_date = None\<rparr>],
      milk_yield =
        [\<lparr>milk_yield.ear_tag = ''A1'', record_date = date_of_ymd 2023 11 5,
          record_year = 2023, yield_value = 25 / 2\<rparr>,
         \<lparr>milk_yield.ear_tag = ''A1'', record_date = date_of_ymd 2023 11 20,
          record_year = 2023, yield_value = 11\<rparr>,
         \<lparr>milk_yield.ear_tag = ''A2'', record_date = date_of_ymd 2023 11 20,
          record_year = 2023, yield_value = 37 / 4\<rparr>,
         \<lparr>milk_yield.ear_tag = ''A2'', record_date = date_of_ymd 2024 1 3,
          record_year = 2024, yield_value = 10\<rparr>,
         \<lparr>milk_yield.ear_tag = ''B1'', record_date = date_of_ymd 2023 12 24,
          record_year = 2023, yield_value = 7\<rparr>,
         \<lparr>milk_yield.ear_tag = ''A1'', record_date = date_of_ymd 2022 3 1,
          record_year = 2022, yield_value = 8\<rparr>]\<rparr>"

text \<open>
  Two animals of one farm with yields of 0.2, 0.3 and 0.1 liters (the nearest doubles): the
  first and the third record are of one animal and of one year.
\<close>

definition tenths :: db where
  "tenths =
     \<lparr>animals =
        [\<lparr>animal.ear_tag = ''A1'', farm_name = ''North'', birth_date = None\<rparr>,
         \<lparr>animal.ear_tag = ''A2'', farm_name = ''North'', birth_date = None\<rparr>],
      milk_yield =
        [\<lparr>milk_yield.ear_tag = ''A1'', record_date = date_of_ymd 2022 5 1,
          record_year = 2022, yield_value = fl64 (1 / 5)\<rparr>,
         \<lparr>milk_yield.ear_tag = ''A2'', record_date = date_of_ymd 2023 5 1,
          record_year = 2023, yield_value = fl64 (3 / 10)\<rparr>,
         \<lparr>milk_yield.ear_tag = ''A1'', record_date = date_of_ymd 2022 5 2,
          record_year = 2022, yield_value = fl64 (1 / 10)\<rparr>]\<rparr>"


text \<open>A farm with a cow that has records and a cow that has none.\<close>

definition dry_cow :: db where
  "dry_cow =
     \<lparr>animals =
        [\<lparr>animal.ear_tag = ''C1'', farm_name = ''West'', birth_date = None\<rparr>,
         \<lparr>animal.ear_tag = ''C2'', farm_name = ''West'', birth_date = None\<rparr>],
      milk_yield =
        [\<lparr>milk_yield.ear_tag = ''C1'', record_date = date_of_ymd 2024 1 3,
          record_year = 2024, yield_value = 12\<rparr>]\<rparr>"

text \<open>One animal whose only record is dated after the day of the query.\<close>

definition future_record :: db where
  "future_record =
     \<lparr>animals = [\<lparr>animal.ear_tag = ''A1'', farm_name = ''North'', birth_date = None\<rparr>],
      milk_yield =
        [\<lparr>milk_yield.ear_tag = ''A1'', record_date = date_of_ymd 2025 6 1,
          record_year = 2025, yield_value = 20\<rparr>]\<rparr>"

section \<open>The merge in words\<close>

text \<open>
  The merge as the specification words it, a full outer join on the month: one row for each
  month that either series has, in ascending order, with 0 for the value a series does not
  have.
\<close>

definition full_outer_join :: "(string \<times> int) list \<Rightarrow> (string \<times> nat) list \<Rightarrow> trend_row list" where
  "full_outer_join left right =
     map (\<lambda>m. \<lparr>month = m,
               liters = (case map_of left m of None \<Rightarrow> 0 | Some v \<Rightarrow> v),
               sessions = (case map_of right m of None \<Rightarrow> 0 | Some s \<Rightarrow> int s)\<rparr>)
       (sort (remdups (map fst left @ map fst right)))"

section \<open>The CSV export\<close>

text \<open>
  The decimal digits of a natural number, as \<^verbatim>\<open>str\<close> and the \<^verbatim>\<open>f\<close> formats print them.
\<close>

fun digits :: "nat \<Rightarrow> string" where
  "digits n = (if n < 10 then [digit_char n] else digits (n div 10) @ [digit_char n])"

declare digits.simps [simp del]

text \<open>
  The thousands separator of the \<^verbatim>\<open>,\<close> format option: a comma after every third digit,
  counted from the right. \<open>group3\<close> works on the reversed digits.
\<close>

fun group3 :: "string \<Rightarrow> string" where
  "group3 (a # b # c # d # r) = a # b # c # CHR '','' # group3 (d # r)"
| "group3 ds = ds"

definition thousands :: "nat \<Rightarrow> string" where
  "thousands n = rev (group3 (rev (digits n)))"

text \<open>
  \<^verbatim>\<open>"{:,.0f}".format(x)\<close> and \<^verbatim>\<open>"{:,.1f}".format(x)\<close>: the number rounded to no or to one
  decimal (halves to even on the exact value), the sign of a negative number kept.
\<close>

definition format_0f :: "real \<Rightarrow> string" where
  "format_0f x = (if x < 0 then ''-'' else []) @ thousands (nat \<bar>round_half_even x\<bar>)"

definition format_1f :: "real \<Rightarrow> string" where
  "format_1f x =
     (let t = nat \<bar>round_half_even (x * 10)\<bar>
      in (if x < 0 then ''-'' else []) @ thousands (t div 10) @ [CHR ''.'', digit_char t])"

fun format_pyfloat_1f :: "pyfloat \<Rightarrow> string" where
  "format_pyfloat_1f (Fin x) = format_1f x"
| "format_pyfloat_1f PInf = ''inf''"
| "format_pyfloat_1f NInf = ''-inf''"
| "format_pyfloat_1f NaN = ''nan''"

text \<open>\<^verbatim>\<open>str\<close> of an integer, the way \<^verbatim>\<open>to_csv\<close> writes the year.\<close>

definition str_int :: "int \<Rightarrow> string" where
  "str_int i = (if i < 0 then ''-'' else []) @ digits (nat \<bar>i\<bar>)"

text \<open>
  The frame that is exported: the columns \<^verbatim>\<open>year\<close>, \<^verbatim>\<open>liters\<close>, \<^verbatim>\<open>days\<close> and
  \<^verbatim>\<open>avg_daily\<close> of the annual breakdown (a farm's \<^verbatim>\<open>cows\<close> column is dropped), renamed,
  the last three mapped through the formats.
\<close>

definition csv_columns :: "string list" where
  "csv_columns = [''Year'', ''Total Liters'', ''Days Milked'', ''Avg Daily (L)'']"

definition csv_cells :: "'a year_row_scheme \<Rightarrow> string list" where
  "csv_cells r =
     [str_int (year r), format_0f (year_row.liters r), format_0f (real (days r)),
      format_pyfloat_1f (year_row.avg_daily r)]"

definition annual_csv :: "'a year_row_scheme list \<Rightarrow> string list \<times> string list list" where
  "annual_csv df = (csv_columns, map csv_cells df)"

text \<open>
  \<^verbatim>\<open>to_csv(index=False)\<close>: the header line and one line for each row, the fields separated
  by commas, a field with a comma, a quote or a line break put in quotes (quotes doubled), no
  index column.
\<close>

definition csv_field :: "string \<Rightarrow> string" where
  "csv_field s =
     (if list_ex (\<lambda>c. c = CHR '','' \<or> c = CHR 0x22 \<or> c = CHR 0x0A \<or> c = CHR 0x0D) s
      then CHR 0x22 # concat (map (\<lambda>c. if c = CHR 0x22 then [CHR 0x22, CHR 0x22] else [c]) s)
             @ [CHR 0x22]
      else s)"

fun join_fields :: "string list \<Rightarrow> string" where
  "join_fields [] = []"
| "join_fields [x] = x"
| "join_fields (x # y # r) = x @ CHR '','' # join_fields (y # r)"

definition to_csv :: "string list \<times> string list list \<Rightarrow> string" where
  "to_csv frame =
     concat (map (\<lambda>cells. join_fields (map csv_field cells) @ [CHR 0x0A])
       (fst frame # snd frame))"

section \<open>Reading the numbers of the CSV back\<close>

text \<open>
  The check of the specification: strip the thousands separators of a cell and read the rest
  as a decimal number (an optional minus sign, digits, and optionally a point and digits).
\<close>

definition strip_thousands :: "string \<Rightarrow> string" where
  "strip_thousands s = filter (\<lambda>c. c \<noteq> CHR '','') s"

definition is_digit :: "char \<Rightarrow> bool" where
  "is_digit c = (c \<in> set ''0123456789'')"

definition digit_value :: "char \<Rightarrow> nat" where
  "digit_value c = of_char c - 48"

definition parse_nat :: "string \<Rightarrow> nat option" where
  "parse_nat s =
     (if s \<noteq> [] \<and> list_all is_digit s
      then Some (foldl (\<lambda>a c. 10 * a + digit_value c) 0 s) else None)"

definition parse_number :: "string \<Rightarrow> real option" where
  "parse_number s =
     (let neg = (s \<noteq> [] \<and> hd s = CHR ''-'');
          body = (if neg then tl s else s);
          ip = takeWhile (\<lambda>c. c \<noteq> CHR ''.'') body;
          fp = drop 1 (dropWhile (\<lambda>c. c \<noteq> CHR ''.'') body);
          sg = (if neg then - 1 else 1)
      in case parse_nat ip of
           None \<Rightarrow> None
         | Some i \<Rightarrow>
             (if fp = [] then Some (sg * real i)
              else case parse_nat fp of
                     None \<Rightarrow> None
                   | Some f \<Rightarrow> Some (sg * (real i + real f / 10 ^ length fp))))"

definition reparse :: "string \<Rightarrow> real option" where
  "reparse s = parse_number (strip_thousands s)"

section \<open>Grouping is a partition\<close>

lemma group_by_keys: "map fst (group_by key rows) = sort (remdups (map key rows))"
  by (simp add: group_by_def comp_def)

lemma group_by_distinct: "distinct (map fst (group_by key rows))"
  by (simp add: group_by_keys)

lemma group_by_sorted: "sorted (map fst (group_by key rows))"
  by (simp add: group_by_keys)

lemma group_by_mem:
  "(k, g) \<in> set (group_by key rows) \<longleftrightarrow> k \<in> key ` set rows \<and> g = filter (\<lambda>r. key r = k) rows"
  by (auto simp: group_by_def)

lemma group_by_nonempty:
  assumes "(k, g) \<in> set (group_by key rows)"
  shows "g \<noteq> []"
proof -
  from assms obtain r where "r \<in> set rows" "key r = k" and g: "g = filter (\<lambda>r. key r = k) rows"
    by (auto simp: group_by_mem)
  then have "r \<in> set g" by simp
  then show ?thesis by auto
qed

lemma count_distinct_pos: "xs \<noteq> [] \<Longrightarrow> 0 < count_distinct xs"
  by (cases xs) (auto simp: count_distinct_def)


lemma mset_partition_keys:
  "distinct ks \<Longrightarrow>
   mset (concat (map (\<lambda>k. filter (\<lambda>r. key r = k) rows) ks)) =
   filter_mset (\<lambda>r. key r \<in> set ks) (mset rows)"
proof (induction ks)
  case Nil
  then show ?case by simp
next
  case (Cons k ks)
  have "filter_mset (\<lambda>r. key r = k) (mset rows) + filter_mset (\<lambda>r. key r \<in> set ks) (mset rows)
        = filter_mset (\<lambda>r. key r \<in> set (k # ks)) (mset rows)"
    using Cons.prems by (induction rows) auto
  with Cons show ?case by simp
qed

lemma group_by_partition: "mset (concat (map snd (group_by key rows))) = mset rows"
proof -
  have "mset (concat (map snd (group_by key rows))) =
        filter_mset (\<lambda>r. key r \<in> set (sort (remdups (map key rows)))) (mset rows)"
    using mset_partition_keys [of "sort (remdups (map key rows))" key rows]
    by (simp add: group_by_def comp_def)
  also have "\<dots> = mset rows"
    by (simp add: filter_mset_eq_conv)
  finally show ?thesis .
qed

lemma sum_list_groups:
  "sum_list (map (\<lambda>(k, g). sum_list (map f g)) kgs) = sum_list (map f (concat (map snd kgs)))"
  by (induction kgs) auto

lemma group_by_sum:
  fixes f :: "'r \<Rightarrow> real"
  shows "sum_list (map (\<lambda>(k, g). sum_list (map f g)) (group_by key rows)) = sum_list (map f rows)"
proof -
  have "sum_list (map (\<lambda>(k, g). sum_list (map f g)) (group_by key rows)) =
        sum_list (map f (concat (map snd (group_by key rows))))"
    by (rule sum_list_groups)
  also have "\<dots> = sum_mset (image_mset f (mset (concat (map snd (group_by key rows)))))"
    by (metis mset_map sum_mset_sum_list)
  also have "\<dots> = sum_mset (image_mset f (mset rows))"
    by (simp only: group_by_partition)
  also have "\<dots> = sum_list (map f rows)"
    by (metis mset_map sum_mset_sum_list)
  finally show ?thesis .
qed

lemma np_avg_pos: "0 < n \<Longrightarrow> np_round1 (np_divide x n) = Fin (round1 (x / real n))"
  by (simp add: np_divide_def)


section \<open>The annual breakdown\<close>

lemma farm_df_year_row:
  assumes "r \<in> set (farm_df_year d farm)"
  shows "0 < days r"
    and "year_row.avg_daily r = Fin (round1 (year_row.liters r / real (days r)))"
proof -
  from assms obtain y g where yg: "(y, g) \<in> set (group_by record_year (farm_join d farm))"
    and r: "days r = count_distinct (map record_date g)"
           "year_row.liters r = float_sum (map yield_value g)"
           "year_row.avg_daily r = np_round1 (np_divide (float_sum (map yield_value g))
                                  (count_distinct (map record_date g)))"
    by (auto simp: farm_df_year_def)
  from yg have "0 < count_distinct (map record_date g)"
    by (simp add: group_by_nonempty count_distinct_pos)
  then show "0 < days r"
    and "year_row.avg_daily r = Fin (round1 (year_row.liters r / real (days r)))"
    using r by (simp_all add: np_avg_pos)
qed

lemma animal_df_year_row:
  assumes "r \<in> set (animal_df_year d tag)"
  shows "0 < days r"
    and "year_row.avg_daily r = Fin (round1 (year_row.liters r / real (days r)))"
proof -
  from assms obtain y g where yg: "(y, g) \<in> set (group_by record_year (animal_rows d tag))"
    and r: "days r = count_distinct (map record_date g)"
           "year_row.liters r = float_sum (map yield_value g)"
           "year_row.avg_daily r = np_round1 (np_divide (float_sum (map yield_value g))
                                  (count_distinct (map record_date g)))"
    by (auto simp: animal_df_year_def)
  from yg have "0 < count_distinct (map record_date g)"
    by (simp add: group_by_nonempty count_distinct_pos)
  then show "0 < days r"
    and "year_row.avg_daily r = Fin (round1 (year_row.liters r / real (days r)))"
    using r by (simp_all add: np_avg_pos)
qed

lemmas float_eval = float_sum_def fadd_def fl64_def binade_def pow2_def round_half_even_def Let_def






lemma coalesce_float_sum: "coalesce (sql_sum xs) 0 = float_sum xs"
  by (simp add: coalesce_def sql_sum_def float_sum_def)

lemma farm_df_year_years:
  "map year (farm_df_year d farm) = sort (remdups (map record_year (farm_join d farm)))"
proof -
  have "map year (farm_df_year d farm) = map fst (group_by record_year (farm_join d farm))"
    by (simp add: farm_df_year_def comp_def case_prod_unfold)
  then show ?thesis
    by (simp only: group_by_keys)
qed

lemma farm_df_year_liters:
  "map year_row.liters (farm_df_year d farm) =
     map (\<lambda>y. float_sum (map yield_value (farm_year_records d farm y)))
       (map year (farm_df_year d farm))"
  unfolding farm_df_year_years
  by (simp add: farm_df_year_def group_by_def farm_year_records_def comp_def)

lemma farm_year_records_fun:
  "farm_year_records d farm = (\<lambda>y. filter (\<lambda>m. record_year m = y) (farm_join d farm))"
  by (rule ext) (simp add: farm_year_records_def)

lemma farm_year_records_partition:
  "mset (concat (map (farm_year_records d farm) (map year (farm_df_year d farm)))) =
     mset (farm_join d farm)"
proof -
  have "concat (map (farm_year_records d farm) (map year (farm_df_year d farm))) =
        concat (map snd (group_by record_year (farm_join d farm)))"
    unfolding farm_df_year_years
    by (simp add: group_by_def farm_year_records_fun comp_def)
  then show ?thesis
    by (simp only: group_by_partition)
qed

lemma farm_year_records_exact_sum:
  "sum_list (map (\<lambda>y. sum_list (map yield_value (farm_year_records d farm y)))
       (map year (farm_df_year d farm))) =
     sum_list (map yield_value (farm_join d farm))"
proof -
  have "sum_list (map (\<lambda>y. sum_list (map yield_value (farm_year_records d farm y)))
          (map year (farm_df_year d farm))) =
        sum_list (map (\<lambda>(k, g). sum_list (map yield_value g))
          (group_by record_year (farm_join d farm)))"
    unfolding farm_df_year_years
    by (simp add: group_by_def farm_year_records_def comp_def)
  then show ?thesis
    by (simp only: group_by_sum)
qed

text \<open>
  C2, as the code has it: the annual breakdown of a farm has one row for each record year of
  the farm's joined rows, in ascending order; the liters of a row are the \<^verbatim>\<open>SUM\<close> over the
  rows of its year, the total is the \<^verbatim>\<open>SUM\<close> over all joined rows, and the rows of the
  years are together exactly the joined rows, each of them once. So the per-year sums add up
  to the sum of all yields in exact arithmetic; the doubles that the two queries return have
  each been rounded along their own additions and need not add up.
\<close>

theorem annual_partition:
  "map year (farm_df_year d farm) = sort (remdups (map record_year (farm_join d farm))) \<and>
   map year_row.liters (farm_df_year d farm) =
     map (\<lambda>y. float_sum (map yield_value (farm_year_records d farm y)))
       (map year (farm_df_year d farm)) \<and>
   farm_total d farm = float_sum (map yield_value (farm_join d farm)) \<and>
   mset (concat (map (farm_year_records d farm) (map year (farm_df_year d farm)))) =
     mset (farm_join d farm) \<and>
   sum_list (map (\<lambda>y. sum_list (map yield_value (farm_year_records d farm y)))
       (map year (farm_df_year d farm))) =
     sum_list (map yield_value (farm_join d farm))"
proof (intro conjI)
  show "farm_total d farm = float_sum (map yield_value (farm_join d farm))"
    by (simp only: farm_total_def coalesce_float_sum)
qed (rule farm_df_year_years farm_df_year_liters farm_year_records_partition
      farm_year_records_exact_sum)+

lemma tenths_doubles:
  "fl64 (1 / 5) = 3602879701896397 / 18014398509481984"
  "fl64 (3 / 10) = 5404319552844595 / 18014398509481984"
  "fl64 (1 / 10) = 3602879701896397 / 36028797018963968"
  by (simp_all add: float_eval)

lemma tenths_sums:
  "float_sum [3602879701896397 / 18014398509481984, 5404319552844595 / 18014398509481984,
              3602879701896397 / 36028797018963968] = 5404319552844595 / 9007199254740992"
  "float_sum [3602879701896397 / 18014398509481984, 3602879701896397 / 36028797018963968] =
     1351079888211149 / 4503599627370496"
  "float_sum [5404319552844595 / 18014398509481984] = 5404319552844595 / 18014398509481984"
  "float_sum [1351079888211149 / 4503599627370496, 5404319552844595 / 18014398509481984] =
     1351079888211149 / 2251799813685248"
  by (simp_all add: float_eval)

lemma tenths_farm_total: "farm_total tenths ''North'' = 5404319552844595 / 9007199254740992"
  by (simp add: farm_total_def coalesce_float_sum farm_join_def tenths_def tenths_doubles
      tenths_sums)

lemma tenths_farm_df_year_liters:
  "map year_row.liters (farm_df_year tenths ''North'') =
     [1351079888211149 / 4503599627370496, 5404319552844595 / 18014398509481984]"
  by (simp add: farm_df_year_def farm_join_def group_by_def tenths_def tenths_doubles
      tenths_sums)

text \<open>
  C2 as stated fails: with yields of 0.2, 0.3 and 0.1 liters, the first and the third in 2022,
  the total is the double 0.6, the annual liters are the doubles 0.30000000000000004 and 0.3,
  and these two add up to the total neither exactly nor in double arithmetic.
\<close>

theorem annual_partition_counterexample:
  "farm_total tenths ''North'' = 5404319552844595 / 9007199254740992 \<and>
   map year_row.liters (farm_df_year tenths ''North'') =
     [1351079888211149 / 4503599627370496, 5404319552844595 / 18014398509481984] \<and>
   sum_list (map year_row.liters (farm_df_year tenths ''North'')) \<noteq>
     farm_total tenths ''North'' \<and>
   float_sum (map year_row.liters (farm_df_year tenths ''North'')) \<noteq>
     farm_total tenths ''North''"
  by (simp add: tenths_farm_total tenths_farm_df_year_liters tenths_sums)

section \<open>The twelve-month trend\<close>

lemma map_fst_agg: "map fst (map (\<lambda>(k, g). (k, f g)) kgs) = map fst kgs"
  by (induction kgs) auto



lemma filter_key_unique:
  "distinct (map fst r) \<Longrightarrow> map_of r m = Some s \<Longrightarrow> filter (\<lambda>(m', s'). m' = m) r = [(m, s)]"
proof (induction r)
  case Nil
  then show ?case by simp
next
  case (Cons p r)
  obtain a b where p: "p = (a, b)" by (cases p)
  show ?case
  proof (cases "a = m")
    case True
    with Cons.prems p have "b = s" and "m \<notin> fst ` set r" by auto
    then have "filter (\<lambda>(m', s'). m' = m) r = []"
      by (force simp: filter_empty_conv)
    with True p \<open>b = s\<close> show ?thesis by simp
  next
    case False
    with Cons p show ?thesis by simp
  qed
qed

lemma concat_singletons: "concat (map (\<lambda>p. [h p]) l) = map h l"
  by (induction l) auto

lemma merge_left_outer:
  assumes keys: "map fst l = map fst r"
    and dist: "distinct (map fst l)"
    and srt: "sorted (map fst l)"
  shows "merge_left l r = full_outer_join l r"
proof -
  let ?g = "\<lambda>m. \<lparr>month = m,
               liters = (case map_of l m of None \<Rightarrow> 0 | Some v \<Rightarrow> v),
               sessions = (case map_of r m of None \<Rightarrow> 0 | Some s \<Rightarrow> int s)\<rparr>"
  have "remdups (map fst l @ map fst r) = map fst l"
    using keys dist by (simp add: remdups_append)
  then have ks: "sort (remdups (map fst l @ map fst r)) = map fst l"
    using srt by (simp add: sorted_sort_id)
  have rhs: "full_outer_join l r = map (\<lambda>p. ?g (fst p)) l"
    unfolding full_outer_join_def ks by (simp add: comp_def)
  have row: "(case p of (m, v) \<Rightarrow>
          (case filter (\<lambda>(m', s). m' = m) r of
             [] \<Rightarrow> [\<lparr>month = m, liters = v, sessions = 0\<rparr>]
           | ms \<Rightarrow> map (\<lambda>(m', s). \<lparr>month = m, liters = v, sessions = int s\<rparr>) ms)) = [?g (fst p)]"
    if p: "p \<in> set l" for p
  proof -
    obtain m v where mv: "p = (m, v)" by (cases p)
    from p mv dist have lv: "map_of l m = Some v" by simp
    from p mv have "m \<in> set (map fst r)"
      unfolding keys [symmetric] by force
    then obtain s where rs: "map_of r m = Some s"
      by (metis map_of_eq_None_iff not_None_eq set_map)
    from dist keys have "distinct (map fst r)" by simp
    from filter_key_unique [OF this rs] lv rs mv show ?thesis by simp
  qed
  have "merge_left l r = concat (map (\<lambda>p. [?g (fst p)]) l)"
    unfolding merge_left_def by (rule arg_cong [where f = concat], rule map_cong [OF refl], rule row)
  then show ?thesis
    by (simp only: rhs concat_singletons)
qed

lemma farm_trend_keys:
  "map fst (farm_liters_12mo d today farm) =
     sort (remdups (map (\<lambda>m. strftime_Ym (record_date m)) (farm_window d today farm)))"
  "map fst (farm_df_count d today farm) =
     sort (remdups (map (\<lambda>m. strftime_Ym (record_date m)) (farm_window d today farm)))"
  by (simp_all only: farm_liters_12mo_def farm_df_count_def map_fst_agg group_by_keys)

lemma animal_trend_keys:
  "map fst (animal_liters_12mo d today tag) =
     sort (remdups (map (\<lambda>m. strftime_Ym (record_date m)) (animal_window d today tag)))"
  "map fst (animal_df_sessions d today tag) =
     sort (remdups (map (\<lambda>m. strftime_Ym (record_date m)) (animal_window d today tag)))"
  by (simp_all only: animal_liters_12mo_def animal_df_sessions_def map_fst_agg group_by_keys)

lemma farm_df_12mo_outer:
  "farm_df_12mo d today farm =
     full_outer_join (farm_liters_12mo d today farm) (farm_df_count d today farm)"
  unfolding farm_df_12mo_def
  by (rule merge_left_outer) (simp_all add: farm_trend_keys)

lemma animal_df_12mo_outer:
  "animal_df_12mo d today tag =
     full_outer_join (animal_liters_12mo d today tag) (animal_df_sessions d today tag)"
  unfolding animal_df_12mo_def
  by (rule merge_left_outer) (simp_all add: animal_trend_keys)

lemma full_outer_join_months:
  "map month (full_outer_join l r) = sort (remdups (map fst l @ map fst r))"
  by (simp add: full_outer_join_def comp_def)

lemma farm_df_12mo_months:
  "map month (farm_df_12mo d today farm) =
     sort (remdups (map (\<lambda>m. strftime_Ym (record_date m)) (farm_window d today farm)))"
proof -
  have "remdups (map fst (farm_liters_12mo d today farm) @ map fst (farm_df_count d today farm)) =
        map fst (farm_liters_12mo d today farm)"
    by (simp add: farm_trend_keys remdups_append)
  then show ?thesis
    by (simp add: farm_df_12mo_outer full_outer_join_months farm_trend_keys sorted_sort_id)
qed

lemma animal_df_12mo_months:
  "map month (animal_df_12mo d today tag) =
     sort (remdups (map (\<lambda>m. strftime_Ym (record_date m)) (animal_window d today tag)))"
proof -
  have "remdups (map fst (animal_liters_12mo d today tag) @ map fst (animal_df_sessions d today tag)) =
        map fst (animal_liters_12mo d today tag)"
    by (simp add: animal_trend_keys remdups_append)
  then show ?thesis
    by (simp add: animal_df_12mo_outer full_outer_join_months animal_trend_keys sorted_sort_id)
qed




lemma two_farms_dates:
  "date_of_ymd 2023 11 5 = 738829" "date_of_ymd 2023 11 20 = 738844"
  "date_of_ymd 2024 1 3 = 738888" "date_of_ymd 2023 12 24 = 738878"
  "date_of_ymd 2022 3 1 = 738215" "date_of_ymd 2024 1 15 = 738900"
  "date_of_ymd 2020 5 1 = 737546"
  by (simp_all add: date_of_ymd_def)



lemma two_farms_sums:
  "float_sum [25 / 2, 11, 37 / 4] = 131 / 4" "float_sum [25 / 2, 11] = 47 / 2"
  "float_sum [10] = 10" "float_sum [8] = 8" "float_sum [37 / 4, 10] = 77 / 4"
  "float_sum [25 / 2, 11, 8] = 63 / 2" "float_sum [25 / 2, 11, 37 / 4, 10, 8] = 203 / 4"
  by (simp_all add: float_eval)







section \<open>Session counts and the window of the trend\<close>









lemma farm_trend_months_set:
  "set (map month (farm_df_12mo d today farm)) =
     (\<lambda>m. strftime_Ym (record_date m)) `
       {m \<in> set (farm_join d farm). today - 365 \<le> record_date m}"
  by (simp only: farm_df_12mo_months set_sort set_remdups set_map farm_window_def set_filter)

lemma animal_trend_months_set:
  "set (map month (animal_df_12mo d today tag)) =
     (\<lambda>m. strftime_Ym (record_date m)) `
       {m \<in> set (animal_rows d tag). today - 365 \<le> record_date m}"
proof -
  have "set (animal_window d today tag) =
        {m \<in> set (animal_rows d tag). today - 365 \<le> record_date m}"
    by (auto simp: animal_window_def animal_rows_def)
  then show ?thesis
    by (simp only: animal_df_12mo_months set_sort set_remdups set_map)
qed

text \<open>
  C4, as the code has it: the months of a trend are exactly the months of the records in scope
  dated on or after \<open>today - 365\<close>. The queries put no upper bound on the date, so a record
  dated after today contributes its month as well.
\<close>

theorem trend_window_lower_bound:
  "set (map month (farm_df_12mo d today farm)) =
     (\<lambda>m. strftime_Ym (record_date m)) `
       {m \<in> set (farm_join d farm). today - 365 \<le> record_date m} \<and>
   set (map month (animal_df_12mo d today tag)) =
     (\<lambda>m. strftime_Ym (record_date m)) `
       {m \<in> set (animal_rows d tag). today - 365 \<le> record_date m}"
  using farm_trend_months_set animal_trend_months_set by simp

lemma future_record_dates:
  "date_of_ymd 2025 6 1 = 739403" "date_of_ymd 2024 1 15 = 738900"
  by (simp_all add: date_of_ymd_def)

lemma future_record_month: "strftime_Ym 739403 = ''2025-06''"
  by code_simp

lemma future_record_sum: "float_sum [20] = 20"
  by (simp add: float_eval)

lemma future_record_farm_df_12mo:
  "farm_df_12mo future_record (date_of_ymd 2024 1 15) ''North'' =
     [\<lparr>month = ''2025-06'', liters = 20, sessions = 1\<rparr>]"
  by (simp add: farm_df_12mo_def farm_liters_12mo_def farm_df_count_def merge_left_def
      group_by_def farm_window_def farm_join_def future_record_def count_distinct_def
      round_half_even_def future_record_dates future_record_month future_record_sum)

lemma future_record_animal_df_12mo:
  "animal_df_12mo future_record (date_of_ymd 2024 1 15) ''A1'' =
     [\<lparr>month = ''2025-06'', liters = 20, sessions = 1\<rparr>]"
  by (simp add: animal_df_12mo_def animal_liters_12mo_def animal_df_sessions_def merge_left_def
      group_by_def animal_window_def future_record_def count_distinct_def
      round_half_even_def future_record_dates future_record_month future_record_sum)

lemma today_month_2024_01_15:
  "strftime_Ym 738900 = ''2024-01''" "''2024-01'' < ''2025-06''"
  by code_simp+

text \<open>
  C4 as stated fails: queried on 2024-01-15, a record dated 2025-06-01 puts the month 2025-06
  into both trends, a month after the month of the day of the query.
\<close>

theorem trend_window_counterexample:
  "farm_df_12mo future_record (date_of_ymd 2024 1 15) ''North'' =
     [\<lparr>month = ''2025-06'', liters = 20, sessions = 1\<rparr>] \<and>
   animal_df_12mo future_record (date_of_ymd 2024 1 15) ''A1'' =
     [\<lparr>month = ''2025-06'', liters = 20, sessions = 1\<rparr>] \<and>
   map record_date (milk_yield future_record) = [date_of_ymd 2025 6 1] \<and>
   date_of_ymd 2024 1 15 < date_of_ymd 2025 6 1 \<and>
   strftime_Ym (date_of_ymd 2024 1 15) = ''2024-01'' \<and>
   ''2024-01'' < ''2025-06''"
  using future_record_farm_df_12mo future_record_animal_df_12mo today_month_2024_01_15
  by (simp add: future_record_dates future_record_def)

section \<open>Scopes without records\<close>

lemma farm_join_empty:
  assumes "\<forall>m \<in> set (milk_yield d). \<forall>a \<in> set (animals d).
             milk_yield.ear_tag m = animal.ear_tag a \<longrightarrow> farm_name a \<noteq> farm"
  shows "farm_join d farm = []"
  using assms by (auto simp: farm_join_def filter_empty_conv)

lemma animal_rows_empty:
  assumes "\<forall>m \<in> set (milk_yield d). milk_yield.ear_tag m \<noteq> tag"
  shows "animal_rows d tag = []" and "animal_window d today tag = []"
  using assms by (auto simp: animal_rows_def animal_window_def filter_empty_conv)

lemma group_by_Nil: "group_by key [] = []"
  by (simp add: group_by_def)

lemma merge_left_Nil: "merge_left [] right = []"
  by (simp add: merge_left_def)

lemma farm_summary_of_no_rows:
  assumes "farm_join d farm = []"
  shows "farm_yield_summary d today farm = (0, 0, [], [])"
  using assms
  by (simp add: farm_yield_summary_def farm_total_def farm_days_def farm_df_year_def
      farm_df_12mo_def farm_liters_12mo_def farm_df_count_def farm_window_def
      sql_sum_def coalesce_def count_distinct_def group_by_Nil merge_left_Nil)

lemma animal_summary_of_no_rows:
  assumes "animal_rows d tag = []" and "animal_window d today tag = []"
  shows "animal_yield_summary d today tag =
     (0, 0, 0, [], [], \<lparr>avg_daily = None, max_yield = None, min_yield = None\<rparr>)"
  using assms
  by (simp add: animal_yield_summary_def animal_total_def animal_days_def animal_duration_def
      to_datetime_date_def animal_df_year_def animal_df_12mo_def animal_liters_12mo_def animal_df_sessions_def
      animal_stats_def sql_sum_def sql_min_def sql_max_def sql_avg_def coalesce_def
      count_distinct_def group_by_Nil merge_left_Nil)

text \<open>
  C6: a farm or an animal without a matching yield record has total liters 0 (the
  \<^verbatim>\<open>COALESCE\<close> turns the NULL sum into 0), 0 lactation days, an empty annual breakdown and an
  empty trend; the aggregators return these values, they do not fail.
\<close>

theorem empty_scope_zero:
  "((\<forall>m \<in> set (milk_yield d). \<forall>a \<in> set (animals d).
        milk_yield.ear_tag m = animal.ear_tag a \<longrightarrow> farm_name a \<noteq> farm) \<longrightarrow>
      farm_yield_summary d today farm = (0, 0, [], [])) \<and>
   ((\<forall>m \<in> set (milk_yield d). milk_yield.ear_tag m \<noteq> tag) \<longrightarrow>
      animal_total d tag = 0 \<and> animal_days d tag = 0 \<and>
      animal_df_year d tag = [] \<and> animal_df_12mo d today tag = [])"
proof (intro conjI impI)
  assume "\<forall>m \<in> set (milk_yield d). \<forall>a \<in> set (animals d).
        milk_yield.ear_tag m = animal.ear_tag a \<longrightarrow> farm_name a \<noteq> farm"
  then have "farm_join d farm = []" by (rule farm_join_empty)
  then show "farm_yield_summary d today farm = (0, 0, [], [])"
    by (rule farm_summary_of_no_rows)
next
  assume "\<forall>m \<in> set (milk_yield d). milk_yield.ear_tag m \<noteq> tag"
  then have "animal_rows d tag = []" and "animal_window d today tag = []"
    by (rule animal_rows_empty)+
  then have "animal_yield_summary d today tag =
     (0, 0, 0, [], [], \<lparr>avg_daily = None, max_yield = None, min_yield = None\<rparr>)"
    by (rule animal_summary_of_no_rows)
  then show "animal_total d tag = 0" "animal_days d tag = 0"
    "animal_df_year d tag = []" "animal_df_12mo d today tag = []"
    by (simp_all add: animal_yield_summary_def)
qed

theorem empty_scope_zero_witness:
  "farm_yield_summary two_farms (date_of_ymd 2024 1 15) ''West'' = (0, 0, [], []) \<and>
   animal_total two_farms ''Z9'' = 0 \<and> animal_days two_farms ''Z9'' = 0 \<and>
   animal_df_year two_farms ''Z9'' = [] \<and>
   animal_df_12mo two_farms (date_of_ymd 2024 1 15) ''Z9'' = []"
proof -
  have f: "\<forall>m \<in> set (milk_yield two_farms). \<forall>a \<in> set (animals two_farms).
        milk_yield.ear_tag m = animal.ear_tag a \<longrightarrow> farm_name a \<noteq> ''West''"
    by (simp add: two_farms_def)
  have a: "\<forall>m \<in> set (milk_yield two_farms). milk_yield.ear_tag m \<noteq> ''Z9''"
    by (simp add: two_farms_def)
  from f a empty_scope_zero [of two_farms "''West''" "date_of_ymd 2024 1 15" "''Z9''"]
  show ?thesis by blast
qed

lemma dry_cow_dates: "date_of_ymd 2024 1 3 = 738888" "date_of_ymd 2024 1 15 = 738900"
  by (simp_all add: date_of_ymd_def)

lemma dry_cow_C1_page:
  "cow_page dry_cow (date_of_ymd 2024 1 15) ''C1'' = Inr [(date_of_ymd 2024 1 3, 12)]"
  by (simp add: cow_page_def animal_yield_summary_def animal_stats_def sql_avg_def
      animal_rows_def df_6mo_def dry_cow_def dry_cow_dates)

text \<open>
  C8, as the code has it: for a cow without a yield record the aggregator returns total 0,
  0 lactation days, duration 0, no annual row, no trend row and three NULL statistics. The
  cow page then formats the NULL average with \<^verbatim>\<open>:.1f\<close> and raises \<^verbatim>\<open>TypeError\<close>: it
  does not reach the six-months query, and produces no detail sequence, empty or not.
\<close>

theorem cow_page_without_records:
  "(\<forall>m \<in> set (milk_yield d). milk_yield.ear_tag m \<noteq> cow) \<Longrightarrow>
   animal_yield_summary d today cow =
     (0, 0, 0, [], [], \<lparr>avg_daily = None, max_yield = None, min_yield = None\<rparr>) \<and>
   cow_page d today cow = Inl TypeError"
proof -
  assume h: "\<forall>m \<in> set (milk_yield d). milk_yield.ear_tag m \<noteq> cow"
  then have "animal_rows d cow = []" and "animal_window d today cow = []"
    by (rule animal_rows_empty)+
  then have s: "animal_yield_summary d today cow =
     (0, 0, 0, [], [], \<lparr>avg_daily = None, max_yield = None, min_yield = None\<rparr>)"
    by (rule animal_summary_of_no_rows)
  then have "cow_page d today cow = Inl TypeError"
    by (simp add: cow_page_def)
  with s show ?thesis by simp
qed

theorem cow_page_without_records_witness:
  "animal_yield_summary dry_cow (date_of_ymd 2024 1 15) ''C2'' =
     (0, 0, 0, [], [], \<lparr>avg_daily = None, max_yield = None, min_yield = None\<rparr>) \<and>
   cow_page dry_cow (date_of_ymd 2024 1 15) ''C2'' = Inl TypeError"
proof -
  have "\<forall>m \<in> set (milk_yield dry_cow). milk_yield.ear_tag m \<noteq> ''C2''"
    by (simp add: dry_cow_def)
  then show ?thesis
    by (rule cow_page_without_records)
qed

section \<open>The active duration of an animal\<close>






lemma animal_dates_Min_le_Max:
  assumes "animal_rows d tag \<noteq> []"
  shows "Min (record_date ` set (animal_rows d tag)) \<le> Max (record_date ` set (animal_rows d tag))"
  using assms by simp














section \<open>Farm totals and animal totals\<close>

lemma sum_list_mset_image:
  fixes g :: "'a \<Rightarrow> real"
  shows "sum_list (map g xs) = sum_mset (image_mset g (mset xs))"
  by (induction xs) simp_all

lemma sum_mset_image_sum_list:
  fixes g :: "'a \<Rightarrow> real"
  shows "sum_mset (image_mset g (sum_list ms)) = sum_list (map (\<lambda>m. sum_mset (image_mset g m)) ms)"
  by (induction ms) simp_all

lemma sum_list_mset_perm:
  fixes f :: "'a \<Rightarrow> 'b::comm_monoid_add"
  assumes "mset xs = mset ys"
  shows "sum_list (map f xs) = sum_list (map f ys)"
proof -
  have "sum_list (map f xs) = sum_mset (image_mset f (mset xs))"
    by (metis mset_map sum_mset_sum_list)
  also have "\<dots> = sum_mset (image_mset f (mset ys))"
    by (simp only: assms)
  also have "\<dots> = sum_list (map f ys)"
    by (metis mset_map sum_mset_sum_list)
  finally show ?thesis .
qed

lemma join_one_record:
  "mset (map (\<lambda>a. m) (filter (\<lambda>a. P a \<and> Q a) A)) =
   sum_list (map (\<lambda>a. if P a then {#m#} else {#}) (filter Q A))"
  by (induction A) simp_all

lemma join_by_animal:
  "mset (concat (map (\<lambda>m. map (\<lambda>a. m)
       (filter (\<lambda>a. milk_yield.ear_tag m = animal.ear_tag a \<and> farm_name a = farm) A)) M)) =
   sum_list (map (\<lambda>a. mset (filter (\<lambda>m. milk_yield.ear_tag m = animal.ear_tag a) M))
     (filter (\<lambda>a. farm_name a = farm) A))"
proof (induction M)
  case Nil
  then show ?case by simp
next
  case (Cons m M)
  let ?As = "filter (\<lambda>a. farm_name a = farm) A"
  let ?one = "\<lambda>a. if milk_yield.ear_tag m = animal.ear_tag a then {#m#} else {#}"
  let ?rest = "\<lambda>a. mset (filter (\<lambda>m. milk_yield.ear_tag m = animal.ear_tag a) M)"
  have "sum_list (map (\<lambda>a. mset (filter (\<lambda>m. milk_yield.ear_tag m = animal.ear_tag a) (m # M))) ?As) =
        sum_list (map (\<lambda>a. ?one a + ?rest a) ?As)"
    by (intro arg_cong [where f = sum_list] map_cong refl) simp
  also have "\<dots> = sum_list (map ?one ?As) + sum_list (map ?rest ?As)"
    by (rule sum_list_addf)
  finally have rhs:
    "sum_list (map (\<lambda>a. mset (filter (\<lambda>m. milk_yield.ear_tag m = animal.ear_tag a) (m # M))) ?As) =
     sum_list (map ?one ?As) + sum_list (map ?rest ?As)" .
  have "mset (concat (map (\<lambda>m. map (\<lambda>a. m)
       (filter (\<lambda>a. milk_yield.ear_tag m = animal.ear_tag a \<and> farm_name a = farm) A)) (m # M))) =
     mset (map (\<lambda>a. m)
       (filter (\<lambda>a. milk_yield.ear_tag m = animal.ear_tag a \<and> farm_name a = farm) A)) +
     mset (concat (map (\<lambda>m. map (\<lambda>a. m)
       (filter (\<lambda>a. milk_yield.ear_tag m = animal.ear_tag a \<and> farm_name a = farm) A)) M))"
    by (simp only: list.map concat.simps mset_append)
  also have "\<dots> = sum_list (map ?one ?As) + sum_list (map ?rest ?As)"
    by (simp only: join_one_record Cons.IH)
  finally show ?case
    by (simp only: rhs)
qed

lemma farm_join_by_animal:
  "mset (farm_join d farm) =
   sum_list (map (\<lambda>a. mset (animal_rows d (animal.ear_tag a)))
     (filter (\<lambda>a. farm_name a = farm) (animals d)))"
  unfolding farm_join_def animal_rows_def by (rule join_by_animal)

lemma load_animals_sum:
  fixes f :: "string \<Rightarrow> 'b::comm_monoid_add"
  shows "sum_list (map (\<lambda>(t, b). f t) (load_animals d farm)) =
     sum_list (map (\<lambda>a. f (animal.ear_tag a)) (filter (\<lambda>a. farm_name a = farm) (animals d)))"
proof -
  have "sum_list (map (\<lambda>(t, b). f t) (load_animals d farm)) =
        sum_list (map (\<lambda>a. f (animal.ear_tag a))
          (sort_key animal.ear_tag (filter (\<lambda>a. farm_name a = farm) (animals d))))"
    by (simp add: load_animals_def comp_def)
  also have "\<dots> = sum_list (map (\<lambda>a. f (animal.ear_tag a))
          (filter (\<lambda>a. farm_name a = farm) (animals d)))"
    by (rule sum_list_mset_perm) simp
  finally show ?thesis .
qed

lemma farm_join_load_animals:
  "mset (farm_join d farm) =
     sum_list (map (\<lambda>(t, b). mset (animal_rows d t)) (load_animals d farm))"
  by (simp only: load_animals_sum farm_join_by_animal)

lemma farm_exact_sum_load_animals:
  "sum_list (map yield_value (farm_join d farm)) =
     sum_list (map (\<lambda>(t, b). sum_list (map yield_value (animal_rows d t))) (load_animals d farm))"
proof -
  have "sum_list (map yield_value (farm_join d farm)) =
      sum_mset (image_mset yield_value (mset (farm_join d farm)))"
    by (simp only: sum_list_mset_image)
  also have "\<dots> = sum_list (map (\<lambda>a. sum_mset (image_mset yield_value
        (mset (animal_rows d (animal.ear_tag a)))))
      (filter (\<lambda>a. farm_name a = farm) (animals d)))"
    by (simp only: farm_join_by_animal sum_mset_image_sum_list map_map comp_def)
  also have "\<dots> = sum_list (map (\<lambda>a. sum_list (map yield_value (animal_rows d (animal.ear_tag a))))
      (filter (\<lambda>a. farm_name a = farm) (animals d)))"
    by (simp only: sum_list_mset_image)
  also have "\<dots> = sum_list (map (\<lambda>(t, b). sum_list (map yield_value (animal_rows d t)))
      (load_animals d farm))"
    by (simp only: load_animals_sum)
  finally show ?thesis .
qed

lemma load_animals_distinct:
  assumes "distinct (map animal.ear_tag (animals d))"
  shows "distinct (map fst (load_animals d farm))"
proof -
  have "map fst (load_animals d farm) =
        map animal.ear_tag (sort_key animal.ear_tag (filter (\<lambda>a. farm_name a = farm) (animals d)))"
    by (simp add: load_animals_def comp_def)
  moreover have "distinct (map animal.ear_tag (filter (\<lambda>a. farm_name a = farm) (animals d)))"
    using assms by (rule distinct_map_filter)
  moreover have "mset (map animal.ear_tag
        (sort_key animal.ear_tag (filter (\<lambda>a. farm_name a = farm) (animals d)))) =
      mset (map animal.ear_tag (filter (\<lambda>a. farm_name a = farm) (animals d)))"
    by simp
  ultimately show ?thesis
    by (metis mset_eq_imp_distinct_iff)
qed

lemma animal_rows_disjoint:
  "t \<noteq> t' \<Longrightarrow> set (animal_rows d t) \<inter> set (animal_rows d t') = {}"
  by (auto simp: animal_rows_def)

text \<open>
  C10, as the code has it: when no two rows of \<^verbatim>\<open>animals\<close> share an ear tag, the rows that
  the farm queries read are the disjoint union of the rows of the animals that
  \<^verbatim>\<open>load_animals\<close> lists for the farm: the listed ear tags are pairwise distinct, and the
  rows of two distinct ear tags have nothing in common. The total of the farm is the
  \<^verbatim>\<open>SUM\<close> over the rows of the farm and the total of an animal the \<^verbatim>\<open>SUM\<close> over its own
  rows. So the totals of the animals add up to the total of the farm in exact arithmetic; the
  doubles that the queries return have each been rounded along their own additions and need
  not add up.
\<close>

theorem farm_records_union_of_animals:
  assumes "distinct (map animal.ear_tag (animals d))"
  shows "mset (farm_join d farm) =
           sum_list (map (\<lambda>(t, b). mset (animal_rows d t)) (load_animals d farm)) \<and>
         distinct (map fst (load_animals d farm)) \<and>
         (\<forall>t t'. t \<noteq> t' \<longrightarrow> set (animal_rows d t) \<inter> set (animal_rows d t') = {}) \<and>
         farm_total d farm = float_sum (map yield_value (farm_join d farm)) \<and>
         (\<forall>t. animal_total d t = float_sum (map yield_value (animal_rows d t))) \<and>
         sum_list (map yield_value (farm_join d farm)) =
           sum_list (map (\<lambda>(t, b). sum_list (map yield_value (animal_rows d t)))
             (load_animals d farm))"
proof (intro conjI allI impI)
  show "mset (farm_join d farm) =
      sum_list (map (\<lambda>(t, b). mset (animal_rows d t)) (load_animals d farm))"
    by (rule farm_join_load_animals)
  show "distinct (map fst (load_animals d farm))"
    using assms by (rule load_animals_distinct)
  show "farm_total d farm = float_sum (map yield_value (farm_join d farm))"
    by (simp only: farm_total_def coalesce_float_sum)
  show "animal_total d t = float_sum (map yield_value (animal_rows d t))" for t
    by (simp only: animal_total_def coalesce_float_sum)
  show "sum_list (map yield_value (farm_join d farm)) =
      sum_list (map (\<lambda>(t, b). sum_list (map yield_value (animal_rows d t))) (load_animals d farm))"
    by (rule farm_exact_sum_load_animals)
  show "set (animal_rows d t) \<inter> set (animal_rows d t') = {}" if "t \<noteq> t'" for t t'
    using that by (rule animal_rows_disjoint)
qed

lemma tag_order: "''A1'' \<le> ''A2''" "\<not> ''A2'' \<le> ''A1''"
  by code_simp+

lemma two_farms_load_animals:
  "map fst (load_animals two_farms ''North'') = [''A1'', ''A2'']"
  by (simp add: load_animals_def two_farms_def tag_order)

lemma two_farms_totals:
  "animal_total two_farms ''A1'' = 63 / 2" "animal_total two_farms ''A2'' = 77 / 4"
  "farm_total two_farms ''North'' = 203 / 4"
  by (simp_all add: animal_total_def farm_total_def animal_rows_def farm_join_def two_farms_def
      coalesce_float_sum two_farms_sums)

theorem farm_records_union_of_animals_witness:
  "distinct (map animal.ear_tag (animals two_farms)) \<and>
   map fst (load_animals two_farms ''North'') = [''A1'', ''A2''] \<and>
   mset (farm_join two_farms ''North'') =
     mset (animal_rows two_farms ''A1'') + mset (animal_rows two_farms ''A2'') \<and>
   float_sum (map yield_value (farm_join two_farms ''North'')) = 203 / 4 \<and>
   float_sum (map yield_value (animal_rows two_farms ''A1'')) = 63 / 2 \<and>
   float_sum (map yield_value (animal_rows two_farms ''A2'')) = 77 / 4"
proof -
  have h: "distinct (map animal.ear_tag (animals two_farms))"
    by (simp add: two_farms_def)
  have l: "load_animals two_farms ''North'' = [(''A1'', Some (date_of_ymd 2020 5 1)), (''A2'', None)]"
    by (simp add: load_animals_def two_farms_def tag_order)
  from farm_records_union_of_animals [OF h, of "''North''"] h l
    two_farms_load_animals two_farms_totals
  show ?thesis by simp
qed

lemma tenths_load_animals:
  "map fst (load_animals tenths ''North'') = [''A1'', ''A2'']"
  by (simp add: load_animals_def tenths_def tag_order)

lemma tenths_animal_totals:
  "animal_total tenths ''A1'' = 1351079888211149 / 4503599627370496"
  "animal_total tenths ''A2'' = 5404319552844595 / 18014398509481984"
  by (simp_all add: animal_total_def animal_rows_def tenths_def coalesce_float_sum
      tenths_doubles tenths_sums)

text \<open>
  C10 as stated fails: the ear tags are unique and every record is of a listed animal, one
  animal has yields of 0.2 and 0.1 liters and the other of 0.3 liters; the total of the farm
  is the double 0.6, the totals of the animals are the doubles 0.30000000000000004 and 0.3,
  and these two add up to the total of the farm neither exactly nor in double arithmetic.
\<close>

theorem farm_total_counterexample:
  "distinct (map animal.ear_tag (animals tenths)) \<and>
   set (map milk_yield.ear_tag (milk_yield tenths)) \<subseteq> set (map animal.ear_tag (animals tenths)) \<and>
   map fst (load_animals tenths ''North'') = [''A1'', ''A2''] \<and>
   farm_total tenths ''North'' = 5404319552844595 / 9007199254740992 \<and>
   animal_total tenths ''A1'' = 1351079888211149 / 4503599627370496 \<and>
   animal_total tenths ''A2'' = 5404319552844595 / 18014398509481984 \<and>
   sum_list (map (\<lambda>t. animal_total tenths t) (map fst (load_animals tenths ''North''))) \<noteq>
     farm_total tenths ''North'' \<and>
   float_sum (map (\<lambda>t. animal_total tenths t) (map fst (load_animals tenths ''North''))) \<noteq>
     farm_total tenths ''North''"
proof -
  have "distinct (map animal.ear_tag (animals tenths))"
    "set (map milk_yield.ear_tag (milk_yield tenths)) \<subseteq> set (map animal.ear_tag (animals tenths))"
    by (simp_all add: tenths_def)
  then show ?thesis
    by (simp add: tenths_load_animals tenths_farm_total tenths_animal_totals tenths_sums)
qed

section \<open>The CSV export and its way back\<close>

lemma is_digit_digit_char: "is_digit (digit_char n)"
  unfolding is_digit_def digit_char_def by (rule nth_mem) simp

lemma digit_value_small:
  assumes "k < 10"
  shows "digit_value (''0123456789'' ! k) = k"
proof -
  from assms have "k \<in> {0, 1, 2, 3, 4, 5, 6, 7, 8, 9}" by auto
  then show ?thesis
    by (auto simp: digit_value_def)
qed

lemma digit_value_digit_char: "digit_value (digit_char n) = n mod 10"
  by (simp add: digit_char_def digit_value_small)

lemma is_digit_not_punct:
  assumes "is_digit c"
  shows "c \<noteq> CHR '',''" and "c \<noteq> CHR ''.''" and "c \<noteq> CHR ''-''"
  using assms by (auto simp: is_digit_def)

lemma digits_nonempty: "digits n \<noteq> []"
  by (induction n rule: digits.induct) (subst digits.simps, simp)

lemma digits_all_digit: "list_all is_digit (digits n)"
proof (induction n rule: digits.induct)
  case (1 n)
  then show ?case
    by (subst digits.simps) (simp add: is_digit_digit_char)
qed

lemma digits_value: "foldl (\<lambda>a c. 10 * a + digit_value c) 0 (digits n) = n"
proof (induction n rule: digits.induct)
  case (1 n)
  show ?case
  proof (cases "n < 10")
    case True
    then show ?thesis
      by (subst digits.simps) (simp add: digit_value_digit_char)
  next
    case False
    with 1 have "foldl (\<lambda>a c. 10 * a + digit_value c) 0 (digits (n div 10)) = n div 10"
      by simp
    with False show ?thesis
      by (subst digits.simps) (simp add: digit_value_digit_char)
  qed
qed

lemma parse_nat_digits: "parse_nat (digits n) = Some n"
  by (simp add: parse_nat_def digits_nonempty digits_all_digit digits_value)

lemma parse_nat_digit_char: "parse_nat [digit_char t] = Some (t mod 10)"
  by (simp add: parse_nat_def is_digit_digit_char digit_value_digit_char)

lemma strip_group3: "strip_thousands (group3 xs) = strip_thousands xs"
  by (induction xs rule: group3.induct) (simp_all add: strip_thousands_def)

lemma strip_digits_only:
  assumes "list_all is_digit xs"
  shows "strip_thousands xs = xs"
  using assms by (induction xs) (simp_all add: strip_thousands_def is_digit_not_punct)

lemma strip_thousands_thousands: "strip_thousands (thousands n) = digits n"
proof -
  have "strip_thousands (thousands n) = rev (strip_thousands (group3 (rev (digits n))))"
    by (simp add: thousands_def strip_thousands_def rev_filter)
  also have "\<dots> = rev (strip_thousands (rev (digits n)))"
    by (simp only: strip_group3)
  also have "\<dots> = strip_thousands (digits n)"
    by (simp add: strip_thousands_def rev_filter)
  also have "\<dots> = digits n"
    by (rule strip_digits_only) (rule digits_all_digit)
  finally show ?thesis .
qed

lemma strip_thousands_append:
  "strip_thousands (xs @ ys) = strip_thousands xs @ strip_thousands ys"
  by (simp add: strip_thousands_def)

lemma digits_no_point: "c \<in> set (digits n) \<Longrightarrow> c \<noteq> CHR ''.''"
  using digits_all_digit [of n] by (auto simp: list_all_iff is_digit_not_punct)

lemma hd_digits_not_minus: "hd (digits n) \<noteq> CHR ''-''"
proof -
  have "hd (digits n) \<in> set (digits n)"
    by (simp add: digits_nonempty)
  then show ?thesis
    using digits_all_digit [of n] by (auto simp: list_all_iff is_digit_not_punct)
qed

lemma takeWhile_digits: "takeWhile (\<lambda>c. c \<noteq> CHR ''.'') (digits n @ rest) =
    digits n @ takeWhile (\<lambda>c. c \<noteq> CHR ''.'') rest"
  by (rule takeWhile_append2) (rule digits_no_point)

lemma dropWhile_digits: "dropWhile (\<lambda>c. c \<noteq> CHR ''.'') (digits n @ rest) =
    dropWhile (\<lambda>c. c \<noteq> CHR ''.'') rest"
  by (rule dropWhile_append2) (rule digits_no_point)

lemma takeWhile_digits_only: "takeWhile (\<lambda>c. c \<noteq> CHR ''.'') (digits n) = digits n"
  using takeWhile_digits [of n "[]"] by simp

lemma dropWhile_digits_only: "dropWhile (\<lambda>c. c \<noteq> CHR ''.'') (digits n) = []"
  using dropWhile_digits [of n "[]"] by simp

lemma parse_number_digits: "parse_number (digits n) = Some (real n)"
  by (simp add: parse_number_def Let_def digits_nonempty hd_digits_not_minus parse_nat_digits
      takeWhile_digits_only dropWhile_digits_only)

lemma parse_number_minus_digits: "parse_number (CHR ''-'' # digits n) = Some (- real n)"
  by (simp add: parse_number_def Let_def parse_nat_digits
      takeWhile_digits_only dropWhile_digits_only)

lemma tenth_split: "real (t div 10) + real (t mod 10) / 10 = real t / 10"
proof -
  have "10 * (t div 10) + t mod 10 = t" by simp
  then have "real (10 * (t div 10) + t mod 10) = real t" by (rule arg_cong)
  then have h: "10 * real (t div 10) + real (t mod 10) = real t"
    by (simp only: of_nat_add of_nat_mult of_nat_numeral)
  have "real t / 10 = (10 * real (t div 10) + real (t mod 10)) / 10"
    by (simp only: h)
  also have "\<dots> = real (t div 10) + real (t mod 10) / 10"
    by (simp add: add_divide_distrib)
  finally show ?thesis by simp
qed

lemma hd_digits_append: "hd (digits n @ rest) = hd (digits n)"
  by (simp add: digits_nonempty)

lemma parse_number_point:
  "parse_number (digits (t div 10) @ [CHR ''.'', digit_char t]) = Some (real t / 10)"
  by (simp add: parse_number_def Let_def hd_digits_append hd_digits_not_minus parse_nat_digits
      parse_nat_digit_char tenth_split takeWhile_digits dropWhile_digits)

lemma parse_number_minus_point:
  "parse_number (CHR ''-'' # digits (t div 10) @ [CHR ''.'', digit_char t]) = Some (- (real t / 10))"
  by (simp add: parse_number_def Let_def parse_nat_digits parse_nat_digit_char tenth_split
      takeWhile_digits dropWhile_digits)

lemma round_half_even_nonneg: "0 \<le> x \<Longrightarrow> 0 \<le> round_half_even x"
  by (simp add: round_half_even_def Let_def)

lemma round_half_even_nonpos:
  assumes "x < 0"
  shows "round_half_even x \<le> 0"
proof -
  from assms have "\<lfloor>x\<rfloor> < 0" by (simp add: floor_less_zero)
  then show ?thesis
    by (simp add: round_half_even_def Let_def)
qed

lemma round_half_even_of_int: "round_half_even (of_int k) = k"
  by (simp add: round_half_even_def)

lemma round1_idem: "round1 (round1 x) = round1 x"
  by (simp add: round1_def round_half_even_of_int)

lemma strip_minus: "strip_thousands (CHR ''-'' # xs) = CHR ''-'' # strip_thousands xs"
  by (simp add: strip_thousands_def)

lemma strip_point_digit: "strip_thousands [CHR ''.'', digit_char t] = [CHR ''.'', digit_char t]"
  using is_digit_digit_char [of t] by (simp add: strip_thousands_def is_digit_not_punct)

lemma reparse_format_0f: "reparse (format_0f x) = Some (of_int (round_half_even x))"
proof (cases "x < 0")
  case True
  then have r: "round_half_even x \<le> 0" by (rule round_half_even_nonpos)
  from True have "reparse (format_0f x) =
      parse_number (CHR ''-'' # digits (nat \<bar>round_half_even x\<bar>))"
    by (simp add: reparse_def format_0f_def strip_minus strip_thousands_thousands)
  also have "\<dots> = Some (- real (nat \<bar>round_half_even x\<bar>))"
    by (rule parse_number_minus_digits)
  also from r have "\<dots> = Some (of_int (round_half_even x))"
    by simp
  finally show ?thesis .
next
  case False
  then have r: "0 \<le> round_half_even x" by (simp add: round_half_even_nonneg)
  from False have "reparse (format_0f x) = parse_number (digits (nat \<bar>round_half_even x\<bar>))"
    by (simp add: reparse_def format_0f_def strip_thousands_thousands)
  also have "\<dots> = Some (real (nat \<bar>round_half_even x\<bar>))"
    by (rule parse_number_digits)
  also from r have "\<dots> = Some (of_int (round_half_even x))"
    by simp
  finally show ?thesis .
qed

lemma reparse_format_1f: "reparse (format_1f x) = Some (round1 x)"
proof (cases "x < 0")
  case True
  let ?t = "nat \<bar>round_half_even (x * 10)\<bar>"
  from True have "x * 10 < 0" by simp
  then have r: "round_half_even (x * 10) \<le> 0" by (rule round_half_even_nonpos)
  from True have "reparse (format_1f x) =
      parse_number (CHR ''-'' # digits (?t div 10) @ [CHR ''.'', digit_char ?t])"
    by (simp add: reparse_def format_1f_def Let_def strip_minus strip_thousands_append
        strip_thousands_thousands strip_point_digit)
  also have "\<dots> = Some (- (real ?t / 10))"
    by (rule parse_number_minus_point)
  also from r have "\<dots> = Some (round1 x)"
    by (simp add: round1_def)
  finally show ?thesis .
next
  case False
  let ?t = "nat \<bar>round_half_even (x * 10)\<bar>"
  from False have "0 \<le> x * 10" by simp
  then have r: "0 \<le> round_half_even (x * 10)" by (rule round_half_even_nonneg)
  from False have "reparse (format_1f x) =
      parse_number (digits (?t div 10) @ [CHR ''.'', digit_char ?t])"
    by (simp add: reparse_def format_1f_def Let_def strip_thousands_append
        strip_thousands_thousands strip_point_digit)
  also have "\<dots> = Some (real ?t / 10)"
    by (rule parse_number_point)
  also from r have "\<dots> = Some (round1 x)"
    by (simp add: round1_def)
  finally show ?thesis .
qed

lemma round_half_even_nat: "round_half_even (real n) = int n"
  using round_half_even_of_int [of "int n"] by simp

lemma reparse_csv_cells:
  assumes "year_row.avg_daily r = Fin (round1 v)"
  shows "length (csv_cells r) = 4"
    and "csv_cells r ! 0 = str_int (year r)"
    and "reparse (csv_cells r ! 1) = Some (of_int (round_half_even (year_row.liters r)))"
    and "reparse (csv_cells r ! 2) = Some (real (days r))"
    and "map_option Fin (reparse (csv_cells r ! 3)) = Some (year_row.avg_daily r)"
  using assms
  by (simp_all add: csv_cells_def reparse_format_0f reparse_format_1f round_half_even_nat
      round1_idem)

lemma reparse_annual_csv:
  assumes "\<And>r. r \<in> set df \<Longrightarrow> \<exists>v. year_row.avg_daily r = Fin (round1 v)"
  shows "fst (annual_csv df) = [''Year'', ''Total Liters'', ''Days Milked'', ''Avg Daily (L)'']"
    and "map length (snd (annual_csv df)) = replicate (length df) 4"
    and "map (\<lambda>c. (c ! 0, reparse (c ! 1), reparse (c ! 2), map_option Fin (reparse (c ! 3))))
           (snd (annual_csv df)) =
         map (\<lambda>r. (str_int (year r), Some (of_int (round_half_even (year_row.liters r))),
                  Some (real (days r)), Some (year_row.avg_daily r))) df"
proof -
  show "fst (annual_csv df) = [''Year'', ''Total Liters'', ''Days Milked'', ''Avg Daily (L)'']"
    by (simp add: annual_csv_def csv_columns_def)
  have len: "length (csv_cells r) = 4" for r :: "'a year_row_scheme"
    by (simp add: csv_cells_def)
  show "map length (snd (annual_csv df)) = replicate (length df) 4"
    by (simp add: annual_csv_def comp_def len map_replicate_const)
  have "(csv_cells r ! 0, reparse (csv_cells r ! 1), reparse (csv_cells r ! 2),
           map_option Fin (reparse (csv_cells r ! 3))) =
        (str_int (year r), Some (of_int (round_half_even (year_row.liters r))),
           Some (real (days r)), Some (year_row.avg_daily r))"
    if "r \<in> set df" for r
  proof -
    from assms [OF that] obtain v where "year_row.avg_daily r = Fin (round1 v)" ..
    then show ?thesis
      by (simp only: reparse_csv_cells)
  qed
  then show "map (\<lambda>c. (c ! 0, reparse (c ! 1), reparse (c ! 2), map_option Fin (reparse (c ! 3))))
           (snd (annual_csv df)) =
         map (\<lambda>r. (str_int (year r), Some (of_int (round_half_even (year_row.liters r))),
                  Some (real (days r)), Some (year_row.avg_daily r))) df"
    by (simp add: annual_csv_def comp_def)
qed

lemma csv_header_line:
  "join_fields (map csv_field csv_columns) = ''Year,Total Liters,Days Milked,Avg Daily (L)''"
  by code_simp

lemma to_csv_header:
  "to_csv (annual_csv df) =
     ''Year,Total Liters,Days Milked,Avg Daily (L)'' @ CHR 0x0A #
     concat (map (\<lambda>r. join_fields (map csv_field (csv_cells r)) @ [CHR 0x0A]) df)"
  by (simp add: to_csv_def annual_csv_def csv_header_line comp_def)

lemma format_examples:
  "format_0f (2469135 / 2) = ''1,234,568''" "format_0f (- 2 / 5) = ''-0''"
  "format_1f (4937 / 4) = ''1,234.2''" "format_1f (81 / 4) = ''20.2''"
  by (simp_all add: format_0f_def format_1f_def thousands_def digits.simps digit_char_def
      round_half_even_def Let_def)

lemma reparse_examples:
  "reparse ''1,234,568'' = Some 1234568" "reparse ''1,234.2'' = Some (6171 / 5)"
  "reparse ''33'' = Some 33"
  by (simp_all add: reparse_def strip_thousands_def parse_number_def parse_nat_def is_digit_def
      digit_value_def Let_def)

text \<open>
  C9, as the code has it: the exported frame has the four columns Year, Total Liters, Days
  Milked, Avg Daily (L) and four cells in every row, the first of them the year (no index
  column); read back without the thousands separators, the days are the original days, the
  average is the stored one-decimal average, and the liters are the original liters rounded
  to the nearest integer (the format \<^verbatim>\<open>{:,.0f}\<close> prints no decimals), for the farm export
  and for the cow export.
\<close>

theorem annual_csv_reparse:
  "fst (annual_csv (farm_df_year d farm)) =
     [''Year'', ''Total Liters'', ''Days Milked'', ''Avg Daily (L)''] \<and>
   map length (snd (annual_csv (farm_df_year d farm))) =
     replicate (length (farm_df_year d farm)) 4 \<and>
   map (\<lambda>c. (c ! 0, reparse (c ! 1), reparse (c ! 2), map_option Fin (reparse (c ! 3))))
       (snd (annual_csv (farm_df_year d farm))) =
     map (\<lambda>r. (str_int (year r), Some (of_int (round_half_even (year_row.liters r))),
              Some (real (days r)), Some (year_row.avg_daily r))) (farm_df_year d farm) \<and>
   to_csv (annual_csv (farm_df_year d farm)) =
     ''Year,Total Liters,Days Milked,Avg Daily (L)'' @ CHR 0x0A #
     concat (map (\<lambda>r. join_fields (map csv_field (csv_cells r)) @ [CHR 0x0A])
       (farm_df_year d farm)) \<and>
   fst (annual_csv (animal_df_year d tag)) =
     [''Year'', ''Total Liters'', ''Days Milked'', ''Avg Daily (L)''] \<and>
   map length (snd (annual_csv (animal_df_year d tag))) =
     replicate (length (animal_df_year d tag)) 4 \<and>
   map (\<lambda>c. (c ! 0, reparse (c ! 1), reparse (c ! 2), map_option Fin (reparse (c ! 3))))
       (snd (annual_csv (animal_df_year d tag))) =
     map (\<lambda>r. (str_int (year r), Some (of_int (round_half_even (year_row.liters r))),
              Some (real (days r)), Some (year_row.avg_daily r))) (animal_df_year d tag) \<and>
   to_csv (annual_csv (animal_df_year d tag)) =
     ''Year,Total Liters,Days Milked,Avg Daily (L)'' @ CHR 0x0A #
     concat (map (\<lambda>r. join_fields (map csv_field (csv_cells r)) @ [CHR 0x0A])
       (animal_df_year d tag))"
proof -
  have f: "\<exists>v. year_row.avg_daily r = Fin (round1 v)" if "r \<in> set (farm_df_year d farm)" for r
    using farm_df_year_row(2) [OF that] by blast
  have a: "\<exists>v. year_row.avg_daily r = Fin (round1 v)" if "r \<in> set (animal_df_year d tag)" for r
    using animal_df_year_row(2) [OF that] by blast
  show ?thesis
    using reparse_annual_csv [of "farm_df_year d farm", OF f]
      reparse_annual_csv [of "animal_df_year d tag", OF a]
      to_csv_header [of "farm_df_year d farm"] to_csv_header [of "animal_df_year d tag"]
    by (intro conjI) assumption+
qed

lemma two_farms_farm_df_year:
  "farm_df_year two_farms ''North'' =
     [\<lparr>year = 2022, liters = 8, days = 1, avg_daily = Fin 8, cows = 1\<rparr>,
      \<lparr>year = 2023, liters = 131 / 4, days = 2, avg_daily = Fin (82 / 5), cows = 2\<rparr>,
      \<lparr>year = 2024, liters = 10, days = 1, avg_daily = Fin 10, cows = 1\<rparr>]"
  by (simp add: farm_df_year_def farm_join_def group_by_def two_farms_def count_distinct_def
      np_divide_def round1_def round_half_even_def two_farms_dates two_farms_sums)

lemma two_farms_csv_cells:
  "snd (annual_csv (farm_df_year two_farms ''North'')) =
     [[''2022'', ''8'', ''1'', ''8.0''], [''2023'', ''33'', ''2'', ''16.4''],
      [''2024'', ''10'', ''1'', ''10.0'']]"
  by (simp add: two_farms_farm_df_year annual_csv_def csv_cells_def str_int_def format_0f_def
      format_1f_def thousands_def digits.simps digit_char_def round_half_even_def Let_def)

theorem annual_csv_reparse_witness:
  "snd (annual_csv (farm_df_year two_farms ''North'')) =
     [[''2022'', ''8'', ''1'', ''8.0''], [''2023'', ''33'', ''2'', ''16.4''],
      [''2024'', ''10'', ''1'', ''10.0'']] \<and>
   map (\<lambda>c. (c ! 0, reparse (c ! 1), reparse (c ! 2), map_option Fin (reparse (c ! 3))))
       (snd (annual_csv (farm_df_year two_farms ''North''))) =
     map (\<lambda>r. (str_int (year r), Some (of_int (round_half_even (year_row.liters r))),
              Some (real (days r)), Some (year_row.avg_daily r)))
       (farm_df_year two_farms ''North'')"
  using annual_csv_reparse [of two_farms "''North''" "''A1''"] two_farms_csv_cells
  by blast

text \<open>
  C9 as stated fails on the liters: the farm North has 32.75 liters in 2023; the export
  prints 33, and reading 33 back does not give 32.75.
\<close>

theorem annual_csv_liters_counterexample:
  "year_row.liters (farm_df_year two_farms ''North'' ! 1) = 131 / 4 \<and>
   snd (annual_csv (farm_df_year two_farms ''North'')) ! 1 ! 1 = ''33'' \<and>
   reparse (snd (annual_csv (farm_df_year two_farms ''North'')) ! 1 ! 1) = Some 33 \<and>
   (33 :: real) \<noteq> 131 / 4"
proof -
  have c: "snd (annual_csv (farm_df_year two_farms ''North'')) ! 1 ! 1 = ''33''"
    by (simp only: two_farms_csv_cells) simp
  have l: "year_row.liters (farm_df_year two_farms ''North'' ! 1) = 131 / 4"
    by (simp only: two_farms_farm_df_year) simp
  show ?thesis
    by (simp only: c l reparse_examples) simp
qed

end
